theory Spec2Isabelle
  imports Complex_Main "HOL-Library.Monad_Syntax"
begin

section \<open>JavaScript numbers\<close>

text \<open>
  A JavaScript number is a finite double, one of the two infinities, or NaN. A finite
  double is read as the real it denotes. An operation on finite doubles whose exact result
  lies beyond the range of doubles gives an infinity, as it does in the language; within
  the range the exact result is kept, so rounding to 53 bits, underflow to zero and the
  sign of zero are outside this model. The special values follow the IEEE 754 rules that
  the language prescribes.
\<close>

datatype jsnum = Fin real | PInf | NInf | NaN

text \<open>A value held by a variable of the script: a number, \<open>null\<close> or \<open>undefined\<close>.\<close>

datatype jsval = Undefined | Null | Num jsnum

text \<open>
  The largest double is \<open>2^1024 - 2^971\<close>. A result is rounded to the nearest double, so it
  stays finite exactly when its magnitude is below \<open>2^1024 - 2^970\<close>.
\<close>

definition overflow_threshold :: real where
  "overflow_threshold = 2 ^ 1024 - 2 ^ 970"

definition representable :: "real \<Rightarrow> bool" where
  "representable x \<longleftrightarrow> \<bar>x\<bar> < overflow_threshold"

text \<open>The infinity with the sign of a non-zero real.\<close>

definition inf_of_sign :: "real \<Rightarrow> jsnum" where
  "inf_of_sign x = (if 0 < x then PInf else NInf)"

text \<open>
  The value of an operation on the finite doubles \<open>x\<close> and \<open>y\<close> whose exact result is \<open>z\<close>.
  A real beyond the range is not a double and no operation of the script yields one; on
  such an operand the exact result is kept.
\<close>

definition rounded :: "real \<Rightarrow> real \<Rightarrow> real \<Rightarrow> jsnum" where
  "rounded x y z =
     (if representable x \<and> representable y \<and> \<not> representable z then inf_of_sign z
      else Fin z)"

fun isFinite :: "jsnum \<Rightarrow> bool" where
  "isFinite (Fin x) = True"
| "isFinite _ = False"


text \<open>\<open>Number.isFinite(v)\<close>: no coercion, so only a finite number passes.\<close>

fun Number_isFinite :: "jsval \<Rightarrow> bool" where
  "Number_isFinite (Num x) = isFinite x"
| "Number_isFinite _ = False"

text \<open>The coercion an arithmetic operator applies to its operand.\<close>

fun ToNumber :: "jsval \<Rightarrow> jsnum" where
  "ToNumber (Num x) = x"
| "ToNumber Null = Fin 0"
| "ToNumber Undefined = NaN"

fun js_neg :: "jsnum \<Rightarrow> jsnum" where
  "js_neg (Fin x) = Fin (- x)"
| "js_neg PInf = NInf"
| "js_neg NInf = PInf"
| "js_neg NaN = NaN"

fun js_add :: "jsnum \<Rightarrow> jsnum \<Rightarrow> jsnum" where
  "js_add NaN _ = NaN"
| "js_add _ NaN = NaN"
| "js_add (Fin x) (Fin y) = rounded x y (x + y)"
| "js_add PInf NInf = NaN"
| "js_add NInf PInf = NaN"
| "js_add PInf _ = PInf"
| "js_add _ PInf = PInf"
| "js_add NInf _ = NInf"
| "js_add _ NInf = NInf"

definition js_sub :: "jsnum \<Rightarrow> jsnum \<Rightarrow> jsnum" where
  "js_sub a b = js_add a (js_neg b)"

fun js_mul :: "jsnum \<Rightarrow> jsnum \<Rightarrow> jsnum" where
  "js_mul NaN _ = NaN"
| "js_mul _ NaN = NaN"
| "js_mul (Fin x) (Fin y) = rounded x y (x * y)"
| "js_mul (Fin x) PInf = (if x = 0 then NaN else inf_of_sign x)"
| "js_mul (Fin x) NInf = (if x = 0 then NaN else inf_of_sign (- x))"
| "js_mul PInf (Fin y) = (if y = 0 then NaN else inf_of_sign y)"
| "js_mul NInf (Fin y) = (if y = 0 then NaN else inf_of_sign (- y))"
| "js_mul PInf PInf = PInf"
| "js_mul NInf NInf = PInf"
| "js_mul PInf NInf = NInf"
| "js_mul NInf PInf = NInf"

text \<open>Division; a zero divisor is read as \<open>+0\<close>.\<close>

fun js_div :: "jsnum \<Rightarrow> jsnum \<Rightarrow> jsnum" where
  "js_div NaN _ = NaN"
| "js_div _ NaN = NaN"
| "js_div (Fin x) (Fin y) =
     (if y = 0 then (if x = 0 then NaN else inf_of_sign x) else rounded x y (x / y))"
| "js_div (Fin x) _ = Fin 0"
| "js_div PInf (Fin y) = (if 0 \<le> y then PInf else NInf)"
| "js_div NInf (Fin y) = (if 0 \<le> y then NInf else PInf)"
| "js_div _ _ = NaN"

fun js_lt :: "jsnum \<Rightarrow> jsnum \<Rightarrow> bool" where
  "js_lt NaN _ = False"
| "js_lt _ NaN = False"
| "js_lt (Fin x) (Fin y) = (x < y)"
| "js_lt _ NInf = False"
| "js_lt PInf _ = False"
| "js_lt _ _ = True"

fun js_le :: "jsnum \<Rightarrow> jsnum \<Rightarrow> bool" where
  "js_le NaN _ = False"
| "js_le _ NaN = False"
| "js_le (Fin x) (Fin y) = (x \<le> y)"
| "js_le NInf _ = True"
| "js_le _ PInf = True"
| "js_le _ _ = False"

definition js_gt :: "jsnum \<Rightarrow> jsnum \<Rightarrow> bool" where
  "js_gt a b = js_lt b a"

text \<open>Strict equality \<open>===\<close> on numbers: NaN equals nothing, itself included.\<close>

fun js_eq :: "jsnum \<Rightarrow> jsnum \<Rightarrow> bool" where
  "js_eq NaN _ = False"
| "js_eq _ NaN = False"
| "js_eq a b = (a = b)"

text \<open>\<open>!x\<close> on a number: zero and NaN are falsy.\<close>

fun falsy :: "jsnum \<Rightarrow> bool" where
  "falsy (Fin x) = (x = 0)"
| "falsy NaN = True"
| "falsy _ = False"

fun Math_floor :: "jsnum \<Rightarrow> jsnum" where
  "Math_floor (Fin x) = Fin (of_int \<lfloor>x\<rfloor>)"
| "Math_floor v = v"

fun Math_ceil :: "jsnum \<Rightarrow> jsnum" where
  "Math_ceil (Fin x) = Fin (of_int \<lceil>x\<rceil>)"
| "Math_ceil v = v"

fun Math_log :: "jsnum \<Rightarrow> jsnum" where
  "Math_log (Fin x) = (if x < 0 then NaN else if x = 0 then NInf else Fin (ln x))"
| "Math_log PInf = PInf"
| "Math_log _ = NaN"

fun Math_sqrt :: "jsnum \<Rightarrow> jsnum" where
  "Math_sqrt (Fin x) = (if x < 0 then NaN else Fin (sqrt x))"
| "Math_sqrt PInf = PInf"
| "Math_sqrt _ = NaN"

fun Math_exp :: "jsnum \<Rightarrow> jsnum" where
  "Math_exp (Fin x) = (if representable (exp x) then Fin (exp x) else PInf)"
| "Math_exp PInf = PInf"
| "Math_exp NInf = Fin 0"
| "Math_exp NaN = NaN"

fun Math_cos :: "jsnum \<Rightarrow> jsnum" where
  "Math_cos (Fin x) = Fin (cos x)"
| "Math_cos _ = NaN"

section \<open>The blending rule\<close>

text \<open>
  \<^verbatim>\<open>
  function blendSamples(f, t, s, sensorWeight) {
    const ok = Number.isFinite(s);
    if (!ok || sensorWeight === 0) {
      return 0.5 * f + 0.5 * t;
    }
    const rest = (1 - sensorWeight) / 2;
    return rest * f + rest * t + sensorWeight * s;
  }
  \<close>
\<close>

definition blendSamples :: "jsnum \<Rightarrow> jsnum \<Rightarrow> jsnum \<Rightarrow> jsnum \<Rightarrow> jsnum" where
  "blendSamples f t s sensorWeight =
     (let ok = isFinite s in
      if \<not> ok \<or> js_eq sensorWeight (Fin 0) then
        js_add (js_mul (Fin 0.5) f) (js_mul (Fin 0.5) t)
      else
        let rest = js_div (js_sub (Fin 1) sensorWeight) (Fin 2) in
        js_add (js_add (js_mul rest f) (js_mul rest t)) (js_mul sensorWeight s))"

section \<open>The random source\<close>

text \<open>
  \<open>Math.random()\<close> is an external generator. Its successive results are given as a
  sequence \<open>rs\<close> of reals, and the state of the generator is the position \<open>n\<close> of the
  next draw: every function that draws returns the position it has reached.
\<close>

type_synonym draws = "nat \<Rightarrow> real"

definition Math_random :: "draws \<Rightarrow> nat \<Rightarrow> jsnum \<times> nat" where
  "Math_random rs n = (Fin (rs n), Suc n)"

text \<open>
  What the generator promises: every draw lies in \<open>[0, 1)\<close>. A generator that is
  \<open>lively\<close> does not return zero for ever from any position on.
\<close>

definition unit_draws :: "draws \<Rightarrow> bool" where
  "unit_draws rs = (\<forall>n. 0 \<le> rs n \<and> rs n < 1)"

definition lively :: "draws \<Rightarrow> bool" where
  "lively rs = (\<forall>n. \<exists>m\<ge>n. rs m \<noteq> 0)"

text \<open>
  A draw is a double: when it is not zero it is at least \<open>2^-1074\<close>, the least positive
  double.
\<close>

definition double_draws :: "draws \<Rightarrow> bool" where
  "double_draws rs = (\<forall>n. rs n = 0 \<or> 1 / 2 ^ 1074 \<le> rs n)"

text \<open>
  \<^verbatim>\<open>
  function rand(min, max) {
    return min + Math.random() * (max - min);
  }
  \<close>
\<close>

definition rand :: "jsnum \<Rightarrow> jsnum \<Rightarrow> draws \<Rightarrow> nat \<Rightarrow> jsnum \<times> nat" where
  "rand lo hi rs n =
     (let (r, n') = Math_random rs n in (js_add lo (js_mul r (js_sub hi lo)), n'))"

text \<open>
  \<^verbatim>\<open>
  function randn() {
    let u1 = 0, u2 = 0;
    while (!u1) u1 = Math.random();
    while (!u2) u2 = Math.random();
    return Math.sqrt(-2 * Math.log(u1)) * Math.cos(2 * Math.PI * u2);
  }
  \<close>
  Each \<open>while\<close> loop may run for ever, so it returns an option: \<open>None\<close> is the run that
  never leaves the loop.
\<close>

partial_function (option) redraw :: "draws \<Rightarrow> jsnum \<Rightarrow> nat \<Rightarrow> (jsnum \<times> nat) option" where
  "redraw rs u n =
     (if falsy u then (let (u', n') = Math_random rs n in redraw rs u' n') else Some (u, n))"

definition randn :: "draws \<Rightarrow> nat \<Rightarrow> (jsnum \<times> nat) option" where
  "randn rs n =
     do {
       (u1, n1) \<leftarrow> redraw rs (Fin 0) n;
       (u2, n2) \<leftarrow> redraw rs (Fin 0) n1;
       Some (js_mul (Math_sqrt (js_mul (Fin (- 2)) (Math_log u1)))
                    (Math_cos (js_mul (js_mul (Fin 2) (Fin pi)) u2)), n2)
     }"

section \<open>The three samplers\<close>

record params =
  fleetSize :: jsnum
  sfMin :: jsnum
  sfMax :: jsnum
  utilMin :: jsnum
  utilMax :: jsnum
  tripsPerDay :: jsnum
  tpcMin :: jsnum
  tpcMax :: jsnum
  samples :: jsnum
  sensorWeight :: jsnum

text \<open>
  \<^verbatim>\<open>
  function sampleFleet(p) {
    const sfShare = rand(p.sfMin, p.sfMax);
    const util = rand(p.utilMin, p.utilMax);
    return p.fleetSize * sfShare * util;
  }
  \<close>
\<close>

definition sampleFleet :: "params \<Rightarrow> draws \<Rightarrow> nat \<Rightarrow> jsnum \<times> nat" where
  "sampleFleet p rs n =
     (let (sfShare, n1) = rand (sfMin p) (sfMax p) rs n;
          (util, n2) = rand (utilMin p) (utilMax p) rs n1
      in (js_mul (js_mul (fleetSize p) sfShare) util, n2))"

text \<open>
  \<^verbatim>\<open>
  function sampleTrip(p) {
    if (p.tripsPerDay <= 0) return 0;
    const tripsPerCar = rand(p.tpcMin, p.tpcMax);
    return p.tripsPerDay / tripsPerCar;
  }
  \<close>
\<close>

definition sampleTrip :: "params \<Rightarrow> draws \<Rightarrow> nat \<Rightarrow> jsnum \<times> nat" where
  "sampleTrip p rs n =
     (if js_le (tripsPerDay p) (Fin 0) then (Fin 0, n)
      else
        let (tripsPerCar, n1) = rand (tpcMin p) (tpcMax p) rs n
        in (js_div (tripsPerDay p) tripsPerCar, n1))"

text \<open>
  \<^verbatim>\<open>
  function sampleSensor(point) {
    if (!Number.isFinite(point) || point <= 0) return NaN;
    const mean = point;
    const sd = point * 0.3;
    const vr = sd * sd / (mean * mean);
    const sigma2 = Math.log(1 + vr);
    const sigma = Math.sqrt(sigma2);
    const mu = Math.log(mean) - sigma2 / 2;
    return Math.exp(mu + sigma * randn());
  }
  \<close>
  The argument is the global \<open>lastSensorCitywideEstimate\<close>, which is \<open>null\<close> until a
  sensor pass has succeeded.
\<close>

definition sampleSensor :: "jsval \<Rightarrow> draws \<Rightarrow> nat \<Rightarrow> (jsnum \<times> nat) option" where
  "sampleSensor point rs n =
     (if \<not> Number_isFinite point \<or> js_le (ToNumber point) (Fin 0) then Some (NaN, n)
      else
        let mean = ToNumber point;
            sd = js_mul (ToNumber point) (Fin 0.3);
            vr = js_div (js_mul sd sd) (js_mul mean mean);
            sigma2 = Math_log (js_add (Fin 1) vr);
            sigma = Math_sqrt sigma2;
            mu = js_sub (Math_log mean) (js_div sigma2 (Fin 2))
        in do {
          (z, n1) \<leftarrow> randn rs n;
          Some (Math_exp (js_add mu (js_mul sigma z)), n1)
        })"

section \<open>Summary statistics\<close>

text \<open>
  Reading \<open>a[k]\<close> with a number \<open>k\<close>: an element when \<open>k\<close> is an integer within the
  bounds, \<open>undefined\<close> otherwise.
\<close>

fun js_index :: "jsnum list \<Rightarrow> jsnum \<Rightarrow> jsval" where
  "js_index a (Fin k) =
     (if of_int \<lfloor>k\<rfloor> = k \<and> 0 \<le> k \<and> k < real (length a) then Num (a ! nat \<lfloor>k\<rfloor>)
      else Undefined)"
| "js_index a _ = Undefined"

text \<open>
  \<^verbatim>\<open>
  function percentile(a, p) {
    const i = p * (a.length - 1);
    const lo = Math.floor(i);
    const hi = Math.ceil(i);
    if (lo === hi) return a[lo];
    return a[lo] * (hi - i) + a[hi] * (i - lo);
  }
  \<close>
\<close>

definition percentile :: "jsnum list \<Rightarrow> jsnum \<Rightarrow> jsval" where
  "percentile a p =
     (let i = js_mul p (Fin (real (length a) - 1));
          lo = Math_floor i;
          hi = Math_ceil i
      in if js_eq lo hi then js_index a lo
         else Num (js_add (js_mul (ToNumber (js_index a lo)) (js_sub hi i))
                          (js_mul (ToNumber (js_index a hi)) (js_sub i lo))))"

text \<open>
  \<open>Array.prototype.sort\<close> with a comparator: stable, and \<open>x\<close> goes after \<open>y\<close> when the
  comparator's result on them is positive.
\<close>

fun js_insort :: "(jsnum \<Rightarrow> jsnum \<Rightarrow> jsnum) \<Rightarrow> jsnum \<Rightarrow> jsnum list \<Rightarrow> jsnum list" where
  "js_insort cmp x [] = [x]"
| "js_insort cmp x (y # ys) =
     (if js_gt (cmp x y) (Fin 0) then y # js_insort cmp x ys else x # y # ys)"

definition js_sort :: "(jsnum \<Rightarrow> jsnum \<Rightarrow> jsnum) \<Rightarrow> jsnum list \<Rightarrow> jsnum list" where
  "js_sort cmp xs = foldr (js_insort cmp) xs []"

record stats =
  mean :: jsval
  p5 :: jsval
  p95 :: jsval

text \<open>
  \<^verbatim>\<open>
  function summarize(arr) {
    const a = arr.filter(x => Number.isFinite(x));
    if (a.length === 0) return { mean: NaN, p5: NaN, p95: NaN };
    const sorted = [...a].sort((a, b) => a - b);
    const mean = sorted.reduce((s, x) => s + x, 0) / sorted.length;
    const p5 = percentile(sorted, 0.05);
    const p95 = percentile(sorted, 0.95);
    return { mean, p5, p95 };
  }
  \<close>
\<close>

definition summarize :: "jsnum list \<Rightarrow> stats" where
  "summarize arr =
     (let a = filter isFinite arr in
      if length a = 0 then \<lparr>mean = Num NaN, p5 = Num NaN, p95 = Num NaN\<rparr>
      else
        let sorted = js_sort js_sub a;
            m = js_div (foldl js_add (Fin 0) sorted) (Fin (real (length sorted)))
        in \<lparr>mean = Num m,
            p5 = percentile sorted (Fin 0.05),
            p95 = percentile sorted (Fin 0.95)\<rparr>)"

section \<open>The Monte Carlo run\<close>

record results =
  fleetSamples :: "jsnum list"
  tripSamples :: "jsnum list"
  sensorSamples :: "jsnum list"
  blendedSamples :: "jsnum list"
  fleetStats :: stats
  tripStats :: stats
  sensorStats :: stats
  blendedStats :: stats

text \<open>
  \<^verbatim>\<open>
  for (let i = 0; i < p.samples; i++) {
    const f = sampleFleet(p);
    const t = sampleTrip(p);
    const s = sampleSensor(sensorPoint);
    const b = blendSamples(f, t, s, p.sensorWeight);
    fleet.push(f); trip.push(t); sensor.push(s); blend.push(b);
  }
  \<close>
  The loop state is the counter, the four arrays and the position of the generator. The
  loop does not end when \<open>p.samples\<close> is \<open>Infinity\<close>, and an iteration does not end when
  \<open>randn\<close> does not.
\<close>

type_synonym arrays = "jsnum list \<times> jsnum list \<times> jsnum list \<times> jsnum list"

partial_function (option) mc_loop ::
  "params \<Rightarrow> jsval \<Rightarrow> draws \<Rightarrow> nat \<Rightarrow> arrays \<Rightarrow> nat \<Rightarrow> (arrays \<times> nat) option" where
  "mc_loop p sensorPoint rs i acc n =
     (if js_lt (Fin (real i)) (samples p) then
        (case acc of (fleet, trip, sensor, blend) \<Rightarrow>
          (case sampleFleet p rs n of (f, n1) \<Rightarrow>
            (case sampleTrip p rs n1 of (t, n2) \<Rightarrow>
              Option.bind (sampleSensor sensorPoint rs n2) (\<lambda>(s, n3).
                mc_loop p sensorPoint rs (Suc i)
                  (fleet @ [f], trip @ [t], sensor @ [s],
                   blend @ [blendSamples f t s (sensorWeight p)]) n3))))
      else Some (acc, n))"

text \<open>
  \<^verbatim>\<open>
  function runMonteCarlo(p) {
    const fleet = []; const trip = []; const sensor = []; const blend = [];
    const sensorPoint = lastSensorCitywideEstimate;
    for (...) { ... }
    return { fleetSamples: fleet, tripSamples: trip, sensorSamples: sensor,
             blendedSamples: blend, fleetStats: summarize(fleet),
             tripStats: summarize(trip), sensorStats: summarize(sensor),
             blendedStats: summarize(blend) };
  }
  \<close>
  The global \<open>lastSensorCitywideEstimate\<close> that the function reads is its second argument.
\<close>

definition runMonteCarlo :: "params \<Rightarrow> jsval \<Rightarrow> draws \<Rightarrow> nat \<Rightarrow> (results \<times> nat) option" where
  "runMonteCarlo p lastSensorCitywideEstimate rs n =
     (let sensorPoint = lastSensorCitywideEstimate in
      Option.bind (mc_loop p sensorPoint rs 0 ([], [], [], []) n)
        (\<lambda>((fleet, trip, sensor, blend), n').
           Some (\<lparr>fleetSamples = fleet, tripSamples = trip, sensorSamples = sensor,
                   blendedSamples = blend, fleetStats = summarize fleet,
                   tripStats = summarize trip, sensorStats = summarize sensor,
                   blendedStats = summarize blend\<rparr>, n')))"

section \<open>Reading and validating the form\<close>

text \<open>
  The ten numbers \<open>Number(document.getElementById(id).value)\<close> that \<open>readInputs\<close> reads,
  under the ids of the form's fields. The two shares and the two utilisations are
  percentages.
\<close>

record form =
  fleetSize_in :: jsnum
  sfShareMin_in :: jsnum
  sfShareMax_in :: jsnum
  utilMin_in :: jsnum
  utilMax_in :: jsnum
  tripsPerDay_in :: jsnum
  tripsPerCarMin_in :: jsnum
  tripsPerCarMax_in :: jsnum
  samples_in :: jsnum
  sensorWeight_in :: jsnum

text \<open>One constructor for each \<open>throw new Error(...)\<close> of \<open>readInputs\<close>, in its order.\<close>

datatype error =
    FleetSizeInvalid      \<comment> \<open>"Fleet size must be > 0."\<close>
  | SfShareInvalid        \<comment> \<open>"SF share % invalid."\<close>
  | UtilizationInvalid    \<comment> \<open>"Utilization % invalid."\<close>
  | TripsPerCarInvalid    \<comment> \<open>"Trips/car invalid."\<close>
  | SamplesInvalid        \<comment> \<open>"Samples must be >= 1000."\<close>
  | SensorWeightInvalid   \<comment> \<open>"Sensor weight must be 0-1."\<close>

text \<open>
  \<^verbatim>\<open>
  if (fleetSize <= 0) throw new Error("Fleet size must be > 0.");
  if (sfMin < 0 || sfMax > 100 || sfMin > sfMax) throw new Error("SF share % invalid.");
  if (utilMin < 0 || utilMax > 100 || utilMin > utilMax) throw new Error("Utilization % invalid.");
  if (tpcMin <= 0 || tpcMax < tpcMin) throw new Error("Trips/car invalid.");
  if (samples < 1000) throw new Error("Samples must be >= 1000.");
  if (sensorWeight < 0 || sensorWeight > 1) throw new Error("Sensor weight must be 0-1.");
  return { fleetSize, sfMin: sfMin / 100, sfMax: sfMax / 100, utilMin: utilMin / 100,
           utilMax: utilMax / 100, tripsPerDay, tpcMin, tpcMax, samples, sensorWeight };
  \<close>
\<close>

definition readInputs :: "form \<Rightarrow> error + params" where
  "readInputs d =
     (let fleetSize = fleetSize_in d;
          sfMin = sfShareMin_in d;
          sfMax = sfShareMax_in d;
          utilMin = utilMin_in d;
          utilMax = utilMax_in d;
          tripsPerDay = tripsPerDay_in d;
          tpcMin = tripsPerCarMin_in d;
          tpcMax = tripsPerCarMax_in d;
          samples = samples_in d;
          sensorWeight = sensorWeight_in d
      in
      if js_le fleetSize (Fin 0) then Inl FleetSizeInvalid
      else if js_lt sfMin (Fin 0) \<or> js_gt sfMax (Fin 100) \<or> js_gt sfMin sfMax
        then Inl SfShareInvalid
      else if js_lt utilMin (Fin 0) \<or> js_gt utilMax (Fin 100) \<or> js_gt utilMin utilMax
        then Inl UtilizationInvalid
      else if js_le tpcMin (Fin 0) \<or> js_lt tpcMax tpcMin then Inl TripsPerCarInvalid
      else if js_lt samples (Fin 1000) then Inl SamplesInvalid
      else if js_lt sensorWeight (Fin 0) \<or> js_gt sensorWeight (Fin 1)
        then Inl SensorWeightInvalid
      else Inr \<lparr>fleetSize = fleetSize,
                 sfMin = js_div sfMin (Fin 100),
                 sfMax = js_div sfMax (Fin 100),
                 utilMin = js_div utilMin (Fin 100),
                 utilMax = js_div utilMax (Fin 100),
                 tripsPerDay = tripsPerDay,
                 tpcMin = tpcMin,
                 tpcMax = tpcMax,
                 samples = samples,
                 sensorWeight = sensorWeight\<rparr>)"

text \<open>
  \<^verbatim>\<open>
  try {
    const params = readInputs();
    const results = runMonteCarlo(params);
    ...
  } catch (err) { status.textContent = "Error: " + err.message; }
  \<close>
  The outcome of a submission is the error caught or the results, with the position the
  generator has reached; the page updates are not modelled.
\<close>

definition handleFormSubmit ::
  "form \<Rightarrow> jsval \<Rightarrow> draws \<Rightarrow> nat \<Rightarrow> ((error + results) \<times> nat) option" where
  "handleFormSubmit d lastSensorCitywideEstimate rs n =
     (case readInputs d of
        Inl err \<Rightarrow> Some (Inl err, n)
      | Inr ps \<Rightarrow>
          map_option (\<lambda>(r, n'). (Inr r, n'))
            (runMonteCarlo ps lastSensorCitywideEstimate rs n))"

section \<open>Arrays as objects\<close>

text \<open>
  An array is an object: \<open>filter\<close> and the spread \<open>[...a]\<close> allocate a new one, \<open>sort\<close>
  rearranges the one it is called on. The store is the list of all arrays, and a
  reference to an array is its index there.
\<close>

type_synonym store = "jsnum list list"

definition alloc :: "store \<Rightarrow> jsnum list \<Rightarrow> nat \<times> store" where
  "alloc h xs = (length h, h @ [xs])"

definition array_filter :: "(jsnum \<Rightarrow> bool) \<Rightarrow> store \<Rightarrow> nat \<Rightarrow> nat \<times> store" where
  "array_filter P h r = alloc h (filter P (h ! r))"

definition array_spread :: "store \<Rightarrow> nat \<Rightarrow> nat \<times> store" where
  "array_spread h r = alloc h (h ! r)"

definition array_sort :: "(jsnum \<Rightarrow> jsnum \<Rightarrow> jsnum) \<Rightarrow> store \<Rightarrow> nat \<Rightarrow> nat \<times> store" where
  "array_sort cmp h r = (r, h[r := js_sort cmp (h ! r)])"

text \<open>
  \<open>summarize\<close> again, on a reference \<open>arr\<close> (valid in the store, \<open>arr < length h\<close>), with
  the store it leaves.
\<close>

definition summarize_store :: "store \<Rightarrow> nat \<Rightarrow> stats \<times> store" where
  "summarize_store h arr =
     (let (a, h1) = array_filter isFinite h arr in
      if length (h1 ! a) = 0 then (\<lparr>mean = Num NaN, p5 = Num NaN, p95 = Num NaN\<rparr>, h1)
      else
        let (c, h2) = array_spread h1 a;
            (sorted, h3) = array_sort js_sub h2 c;
            m = js_div (foldl js_add (Fin 0) (h3 ! sorted)) (Fin (real (length (h3 ! sorted))))
        in (\<lparr>mean = Num m,
             p5 = percentile (h3 ! sorted) (Fin 0.05),
             p95 = percentile (h3 ! sorted) (Fin 0.95)\<rparr>, h3))"

section \<open>Validity of inputs\<close>


section \<open>Sample inputs\<close>


definition demo_form :: form where
  "demo_form = \<lparr>fleetSize_in = Fin 1500, sfShareMin_in = Fin 10, sfShareMax_in = Fin 20,
     utilMin_in = Fin 50, utilMax_in = Fin 90, tripsPerDay_in = Fin 3000,
     tripsPerCarMin_in = Fin 10, tripsPerCarMax_in = Fin 20, samples_in = Fin 1000,
     sensorWeight_in = Fin (1/2)\<rparr>"

section \<open>Arithmetic within the range\<close>

lemma representable_le: "\<bar>x\<bar> \<le> 2 ^ 1023 \<Longrightarrow> representable x"
proof -
  have "(2::real) ^ 1023 < 2 ^ 1024 - 2 ^ 970" by simp
  then show "\<bar>x\<bar> \<le> 2 ^ 1023 \<Longrightarrow> representable x"
    by (simp add: representable_def overflow_threshold_def)
qed


lemma rounded_Fin: "representable z \<Longrightarrow> rounded x y z = Fin z"
  by (simp add: rounded_def)

lemma rounded_small: "\<bar>z\<bar> \<le> 2 ^ 1023 \<Longrightarrow> rounded x y z = Fin z"
  by (simp add: rounded_Fin representable_le)

lemma rounded_shrink: "\<bar>z\<bar> \<le> \<bar>x\<bar> \<or> \<bar>z\<bar> \<le> \<bar>y\<bar> \<Longrightarrow> rounded x y z = Fin z"
  by (auto simp: rounded_def representable_def)

lemma js_add_Fin: "representable (x + y) \<Longrightarrow> js_add (Fin x) (Fin y) = Fin (x + y)"
  by (simp add: rounded_Fin)

lemma js_sub_Fin: "representable (x - y) \<Longrightarrow> js_sub (Fin x) (Fin y) = Fin (x - y)"
  by (simp add: js_sub_def rounded_Fin)

lemma js_mul_Fin: "representable (x * y) \<Longrightarrow> js_mul (Fin x) (Fin y) = Fin (x * y)"
  by (simp add: rounded_Fin)

lemma js_div_Fin:
  "y \<noteq> 0 \<Longrightarrow> representable (x / y) \<Longrightarrow> js_div (Fin x) (Fin y) = Fin (x / y)"
  by (simp add: rounded_Fin)



section \<open>Properties of the blending rule\<close>

lemma js_eq_zero: "js_eq w (Fin 0) \<longleftrightarrow> w = Fin 0"
  by (cases w) auto

lemma coefficients_sum:
  assumes "0 < r" "r \<le> 1"
  shows "js_add (js_add (js_div (js_sub (Fin 1) (Fin r)) (Fin 2))
                        (js_div (js_sub (Fin 1) (Fin r)) (Fin 2))) (Fin r) = Fin 1"
proof -
  have a: "js_sub (Fin 1) (Fin r) = Fin (1 - r)"
    using assms by (simp add: js_sub_def rounded_small)
  have b: "js_div (Fin (1 - r)) (Fin 2) = Fin ((1 - r) / 2)"
    using assms by (simp add: rounded_small)
  have c: "js_add (Fin ((1 - r) / 2)) (Fin ((1 - r) / 2)) = Fin (1 - r)"
    using assms by (simp add: rounded_small)
  have d: "js_add (Fin (1 - r)) (Fin r) = Fin 1"
    by (simp add: rounded_small)
  show ?thesis by (simp only: a b c d)
qed

text \<open>
  Claim C1. When the sensor sample is not finite or the sensor weight is zero,
  \<open>blendSamples\<close> returns \<open>0.5 * f + 0.5 * t\<close>; otherwise it returns
  \<open>rest * f + rest * t + w * s\<close> with \<open>rest = (1 - w) / 2\<close>; and for a weight in \<open>(0, 1]\<close>
  the three coefficients \<open>rest\<close>, \<open>rest\<close> and \<open>w\<close> add up to 1.
\<close>

theorem blendSamples_rule:
  "(\<not> isFinite s \<or> w = Fin 0 \<longrightarrow>
      blendSamples f t s w = js_add (js_mul (Fin 0.5) f) (js_mul (Fin 0.5) t))
   \<and> (isFinite s \<and> w \<noteq> Fin 0 \<longrightarrow>
      blendSamples f t s w =
        js_add (js_add (js_mul (js_div (js_sub (Fin 1) w) (Fin 2)) f)
                       (js_mul (js_div (js_sub (Fin 1) w) (Fin 2)) t))
               (js_mul w s))
   \<and> (\<forall>r. w = Fin r \<and> 0 < r \<and> r \<le> 1 \<longrightarrow>
      js_add (js_add (js_div (js_sub (Fin 1) w) (Fin 2)) (js_div (js_sub (Fin 1) w) (Fin 2))) w
        = Fin 1)"
proof (intro conjI impI allI)
  show "\<not> isFinite s \<or> w = Fin 0 \<Longrightarrow>
      blendSamples f t s w = js_add (js_mul (Fin 0.5) f) (js_mul (Fin 0.5) t)"
    by (auto simp: blendSamples_def)
next
  show "isFinite s \<and> w \<noteq> Fin 0 \<Longrightarrow> blendSamples f t s w =
        js_add (js_add (js_mul (js_div (js_sub (Fin 1) w) (Fin 2)) f)
                       (js_mul (js_div (js_sub (Fin 1) w) (Fin 2)) t))
               (js_mul w s)"
    by (simp add: blendSamples_def js_eq_zero Let_def)
next
  fix r assume "w = Fin r \<and> 0 < r \<and> r \<le> 1"
  then show "js_add (js_add (js_div (js_sub (Fin 1) w) (Fin 2)) (js_div (js_sub (Fin 1) w) (Fin 2))) w
        = Fin 1"
    using coefficients_sum [of r] by simp
qed

theorem blendSamples_rule_witness:
  "blendSamples (Fin 100) (Fin 200) NaN (Fin (1/2)) = Fin 150
   \<and> blendSamples (Fin 100) (Fin 200) (Fin 300) (Fin 0) = Fin 150
   \<and> blendSamples (Fin 100) (Fin 200) (Fin 300) (Fin (1/2)) = Fin 225
   \<and> js_add (js_add (js_div (js_sub (Fin 1) (Fin (1/2))) (Fin 2))
                     (js_div (js_sub (Fin 1) (Fin (1/2))) (Fin 2))) (Fin (1/2)) = Fin 1"
  using blendSamples_rule [of NaN "Fin (1/2)" "Fin 100" "Fin 200"]
        blendSamples_rule [of "Fin 300" "Fin 0" "Fin 100" "Fin 200"]
        blendSamples_rule [of "Fin 300" "Fin (1/2)" "Fin 100" "Fin 200"]
  by (simp add: js_sub_def rounded_small)

text \<open>
  A fleet sample need not be finite: \<open>readInputs\<close> lets a fleet size of \<open>Infinity\<close> through,
  since \<open>Infinity <= 0\<close> is false, and the fleet sample drawn from it is \<open>Infinity\<close>.
\<close>

lemma infinite_fleet_sample:
  "readInputs (demo_form\<lparr>fleetSize_in := PInf\<rparr>)
     = Inr \<lparr>fleetSize = PInf, sfMin = Fin (1/10), sfMax = Fin (1/5),
        utilMin = Fin (1/2), utilMax = Fin (9/10), tripsPerDay = Fin 3000,
        tpcMin = Fin 10, tpcMax = Fin 20, samples = Fin 1000, sensorWeight = Fin (1/2)\<rparr>"
  "sampleFleet \<lparr>fleetSize = PInf, sfMin = Fin (1/10), sfMax = Fin (1/5),
        utilMin = Fin (1/2), utilMax = Fin (9/10), tripsPerDay = Fin 3000,
        tpcMin = Fin 10, tpcMax = Fin 20, samples = Fin 1000, sensorWeight = Fin (1/2)\<rparr>
     (\<lambda>_. 1/2) 0 = (PInf, 2)"
  by (simp_all add: readInputs_def demo_form_def js_gt_def Let_def sampleFleet_def rand_def
      Math_random_def js_sub_def inf_of_sign_def rounded_small)

text \<open>
  Claim C10, as stated: with sensor weight 1 and a finite sensor sample the result is
  the sensor sample, whatever the fleet and trip samples. It fails for a fleet sample
  that is not finite: the coefficient 0 times \<open>Infinity\<close> is NaN, and so is the sum.
\<close>

theorem blendSamples_full_weight_counterexample:
  "blendSamples PInf (Fin 1) (Fin 2) (Fin 1) \<noteq> Fin 2"
  by (simp add: blendSamples_def js_sub_def rounded_small)

text \<open>
  Claim C10, amended: with sensor weight 1 and finite fleet, trip and sensor samples,
  \<open>blendSamples\<close> returns the sensor sample.
\<close>

theorem blendSamples_full_weight:
  "isFinite f \<Longrightarrow> isFinite t \<Longrightarrow> isFinite s \<Longrightarrow> blendSamples f t s (Fin 1) = s"
  by (cases f; cases t; cases s)
     (simp_all add: blendSamples_def js_sub_def rounded_small rounded_shrink)

theorem blendSamples_full_weight_witness:
  "isFinite (Fin 80) \<and> isFinite (Fin 0) \<and> isFinite (Fin 1000)
   \<and> blendSamples (Fin 80) (Fin 0) (Fin 1000) (Fin 1) = Fin 1000"
  using blendSamples_full_weight [of "Fin 80" "Fin 0" "Fin 1000"] by simp

section \<open>Properties of the percentile\<close>

lemma js_index_int:
  "0 \<le> k \<Longrightarrow> nat k < length a \<Longrightarrow> js_index a (Fin (of_int k)) = Num (a ! nat k)"
  by simp

lemma percentile_bounds:
  assumes "a \<noteq> []" "0 \<le> q" "q \<le> 1"
  defines "idx \<equiv> q * (real (length a) - 1)"
  shows "0 \<le> \<lfloor>idx\<rfloor>" "nat \<lfloor>idx\<rfloor> < length a" "0 \<le> \<lceil>idx\<rceil>" "nat \<lceil>idx\<rceil> < length a"
proof -
  have len: "1 \<le> real (length a)" using assms(1) by (cases a) auto
  have lo: "0 \<le> idx" unfolding idx_def using assms(2) len by simp
  have "idx \<le> 1 * (real (length a) - 1)"
    unfolding idx_def using assms(3) len by (intro mult_right_mono) auto
  then have hi: "idx \<le> real (length a - 1)" using len by (simp add: of_nat_diff)
  show "0 \<le> \<lfloor>idx\<rfloor>" using lo by simp
  show "0 \<le> \<lceil>idx\<rceil>" using lo by (metis ceiling_mono ceiling_zero)
  have "\<lceil>idx\<rceil> \<le> int (length a - 1)" using hi by (simp add: ceiling_le_iff)
  moreover have "\<lfloor>idx\<rfloor> \<le> \<lceil>idx\<rceil>" by (simp add: floor_le_ceiling)
  ultimately show "nat \<lfloor>idx\<rfloor> < length a" "nat \<lceil>idx\<rceil> < length a"
    using assms(1) by (cases a; simp; linarith)+
qed

text \<open>
  Claim C3. For a non-empty array \<open>a\<close> of length \<open>m\<close> and a fraction \<open>p\<close> in \<open>[0, 1]\<close>, with
  \<open>idx = p * (m - 1)\<close>, \<open>lo = floor idx\<close> and \<open>hi = ceil idx\<close>, \<open>percentile\<close> returns
  \<open>a[lo]\<close> when \<open>lo = hi\<close> and \<open>a[lo] * (hi - idx) + a[hi] * (idx - lo)\<close> otherwise. In
  particular \<open>percentile([10], 0.05) = 10\<close>, \<open>percentile([1,2,3,4,5], 0.5) = 3\<close> and
  \<open>percentile([1,2], 0.25) = 1.25\<close>. Whether the array is sorted plays no part.
\<close>

theorem percentile_interpolates:
  "(a \<noteq> [] \<and> 0 \<le> q \<and> q \<le> 1 \<longrightarrow>
      (let idx = q * (real (length a) - 1); lo = \<lfloor>idx\<rfloor>; hi = \<lceil>idx\<rceil> in
       percentile a (Fin q) =
         (if lo = hi then Num (a ! nat lo)
          else Num (js_add (js_mul (a ! nat lo) (Fin (of_int hi - idx)))
                           (js_mul (a ! nat hi) (Fin (idx - of_int lo)))))))
   \<and> percentile [Fin 10] (Fin 0.05) = Num (Fin 10)
   \<and> percentile [Fin 1, Fin 2, Fin 3, Fin 4, Fin 5] (Fin 0.5) = Num (Fin 3)
   \<and> percentile [Fin 1, Fin 2] (Fin 0.25) = Num (Fin 1.25)"
proof (intro conjI impI)
  assume h: "a \<noteq> [] \<and> 0 \<le> q \<and> q \<le> 1"
  from h have h': "a \<noteq> []" "0 \<le> q" "q \<le> 1" by simp_all
  note b = percentile_bounds [OF h']
  show "let idx = q * (real (length a) - 1); lo = \<lfloor>idx\<rfloor>; hi = \<lceil>idx\<rceil> in
       percentile a (Fin q) =
         (if lo = hi then Num (a ! nat lo)
          else Num (js_add (js_mul (a ! nat lo) (Fin (of_int hi - idx)))
                           (js_mul (a ! nat hi) (Fin (idx - of_int lo)))))"
  proof -
    have "\<bar>q\<bar> * \<bar>real (length a) - 1\<bar> \<le> \<bar>real (length a) - 1\<bar>"
      using h' by (intro mult_left_le_one_le) simp_all
    then have m: "js_mul (Fin q) (Fin (real (length a) - 1)) = Fin (q * (real (length a) - 1))"
      by (simp add: rounded_shrink abs_mult)
    have "\<bar>of_int \<lceil>q * (real (length a) - 1)\<rceil> - q * (real (length a) - 1)\<bar> \<le> 1" by linarith
    then have d1: "js_sub (Fin (of_int \<lceil>q * (real (length a) - 1)\<rceil>)) (Fin (q * (real (length a) - 1)))
        = Fin (of_int \<lceil>q * (real (length a) - 1)\<rceil> - q * (real (length a) - 1))"
      by (intro js_sub_Fin representable_le) simp
    have "\<bar>q * (real (length a) - 1) - of_int \<lfloor>q * (real (length a) - 1)\<rfloor>\<bar> \<le> 1" by linarith
    then have d2: "js_sub (Fin (q * (real (length a) - 1))) (Fin (of_int \<lfloor>q * (real (length a) - 1)\<rfloor>))
        = Fin (q * (real (length a) - 1) - of_int \<lfloor>q * (real (length a) - 1)\<rfloor>)"
      by (intro js_sub_Fin representable_le) simp
    show ?thesis
      using b by (simp add: percentile_def Let_def m d1 d2 js_index_int del: js_index.simps js_mul.simps)
  qed
next
  show "percentile [Fin 10] (Fin 0.05) = Num (Fin 10)"
    by (simp add: percentile_def rounded_small)
next
  show "percentile [Fin 1, Fin 2, Fin 3, Fin 4, Fin 5] (Fin 0.5) = Num (Fin 3)"
    by (simp add: percentile_def rounded_small)
next
  have c: "\<lceil>1 / 4 :: real\<rceil> = 1" by (simp add: ceiling_eq_iff)
  show "percentile [Fin 1, Fin 2] (Fin 0.25) = Num (Fin 1.25)"
    by (simp add: percentile_def js_sub_def Let_def c rounded_small)
qed

theorem percentile_interpolates_witness:
  "[Fin 10, Fin 20, Fin 40] \<noteq> [] \<and> (0::real) \<le> 3 / 4 \<and> (3 / 4 :: real) \<le> 1
   \<and> percentile [Fin 10, Fin 20, Fin 40] (Fin (3 / 4)) = Num (Fin 30)"
proof -
  have f: "\<lfloor>3 / 2 :: real\<rfloor> = 1" by (simp add: floor_eq_iff)
  have c: "\<lceil>3 / 2 :: real\<rceil> = 2" by (simp add: ceiling_eq_iff)
  show ?thesis
    using percentile_interpolates [of "[Fin 10, Fin 20, Fin 40]" "3 / 4"]
    by (simp add: Let_def f c rounded_small)
qed

section \<open>Properties of the summary\<close>

text \<open>
  Claim C5. \<open>summarize\<close> looks only at the finite entries of its input. When there is
  none, the three fields of its result are NaN, the script's value for a statistic that
  is not defined: it is neither a finite number nor zero. For \<open>[7, 7, 7]\<close> the mean and
  both percentiles are 7.
\<close>

theorem summarize_finite_only:
  "summarize arr = summarize (filter isFinite arr)
   \<and> (filter isFinite arr = [] \<longrightarrow>
        summarize arr = \<lparr>mean = Num NaN, p5 = Num NaN, p95 = Num NaN\<rparr>
        \<and> \<not> Number_isFinite (mean (summarize arr))
        \<and> \<not> Number_isFinite (p5 (summarize arr))
        \<and> \<not> Number_isFinite (p95 (summarize arr))
        \<and> mean (summarize arr) \<noteq> Num (Fin 0)
        \<and> p5 (summarize arr) \<noteq> Num (Fin 0)
        \<and> p95 (summarize arr) \<noteq> Num (Fin 0))
   \<and> summarize [Fin 7, Fin 7, Fin 7] = \<lparr>mean = Num (Fin 7), p5 = Num (Fin 7), p95 = Num (Fin 7)\<rparr>"
proof (intro conjI impI)
  show "summarize arr = summarize (filter isFinite arr)"
    by (simp add: summarize_def)
next
  assume e: "filter isFinite arr = []"
  then show "summarize arr = \<lparr>mean = Num NaN, p5 = Num NaN, p95 = Num NaN\<rparr>"
    by (simp add: summarize_def)
  with e show "\<not> Number_isFinite (mean (summarize arr))" "\<not> Number_isFinite (p5 (summarize arr))"
    "\<not> Number_isFinite (p95 (summarize arr))" "mean (summarize arr) \<noteq> Num (Fin 0)"
    "p5 (summarize arr) \<noteq> Num (Fin 0)" "p95 (summarize arr) \<noteq> Num (Fin 0)"
    by simp_all
next
  have s: "js_sort js_sub [Fin 7, Fin 7, Fin 7] = [Fin 7, Fin 7, Fin 7]"
    by (simp add: js_sort_def js_sub_def js_gt_def rounded_small)
  have f1: "\<lfloor>1 / 10 :: real\<rfloor> = 0" by (simp add: floor_eq_iff)
  have c1: "\<lceil>1 / 10 :: real\<rceil> = 1" by (simp add: ceiling_eq_iff)
  have f2: "\<lfloor>19 / 10 :: real\<rfloor> = 1" by (simp add: floor_eq_iff)
  have c2: "\<lceil>19 / 10 :: real\<rceil> = 2" by (simp add: ceiling_eq_iff)
  have p5: "percentile [Fin 7, Fin 7, Fin 7] (Fin 0.05) = Num (Fin 7)"
    by (simp add: percentile_def Let_def js_sub_def f1 c1 rounded_small)
  have p95: "percentile [Fin 7, Fin 7, Fin 7] (Fin 0.95) = Num (Fin 7)"
    by (simp add: percentile_def Let_def js_sub_def f2 c2 rounded_small)
  show "summarize [Fin 7, Fin 7, Fin 7] = \<lparr>mean = Num (Fin 7), p5 = Num (Fin 7), p95 = Num (Fin 7)\<rparr>"
    using p5 p95 by (simp add: summarize_def s Let_def rounded_small)
qed

theorem summarize_finite_only_witness:
  "filter isFinite [NaN, PInf] = []
   \<and> summarize [NaN, PInf] = \<lparr>mean = Num NaN, p5 = Num NaN, p95 = Num NaN\<rparr>
   \<and> summarize [] = \<lparr>mean = Num NaN, p5 = Num NaN, p95 = Num NaN\<rparr>"
  using summarize_finite_only [of "[NaN, PInf]", THEN conjunct2, THEN conjunct1]
        summarize_finite_only [of "[]", THEN conjunct2, THEN conjunct1]
  by simp

text \<open>
  Claim C9. \<open>summarize\<close> leaves every array that existed before the call as it was, the
  one it was given included: the array it sorts is a copy that it allocated itself. Its
  result is the one computed from the contents of the array.
\<close>

theorem summarize_store_frame:
  "arr < length h \<Longrightarrow>
     (\<forall>r < length h. snd (summarize_store h arr) ! r = h ! r)
     \<and> take (length h) (snd (summarize_store h arr)) = h
     \<and> fst (summarize_store h arr) = summarize (h ! arr)"
  by (simp add: summarize_store_def summarize_def array_filter_def array_spread_def
      array_sort_def alloc_def Let_def nth_append)

theorem summarize_store_frame_witness:
  "(0::nat) < length [[Fin 3, NaN, Fin 1]]
   \<and> snd (summarize_store [[Fin 3, NaN, Fin 1]] 0) ! 0 = [Fin 3, NaN, Fin 1]"
  using summarize_store_frame [of 0 "[[Fin 3, NaN, Fin 1]]"] by simp

section \<open>Properties of the trip sampler\<close>





section \<open>Properties of the validation\<close>

text \<open>
  Claim C2, as stated: every form with a field outside its constraint is rejected, a
  negative number of trips per day included. It fails: \<open>readInputs\<close> never looks at
  \<open>tripsPerDay\<close>, and a form with \<open>tripsPerDay = -5\<close> is accepted.
\<close>

theorem readInputs_negative_trips_counterexample:
  "js_lt (Fin (- 5)) (Fin 0)
   \<and> readInputs \<lparr>fleetSize_in = Fin 1500, sfShareMin_in = Fin 10, sfShareMax_in = Fin 20,
        utilMin_in = Fin 50, utilMax_in = Fin 90, tripsPerDay_in = Fin (- 5),
        tripsPerCarMin_in = Fin 10, tripsPerCarMax_in = Fin 20, samples_in = Fin 1000,
        sensorWeight_in = Fin (1/2)\<rparr>
     = Inr \<lparr>fleetSize = Fin 1500, sfMin = Fin (1/10), sfMax = Fin (1/5),
        utilMin = Fin (1/2), utilMax = Fin (9/10), tripsPerDay = Fin (- 5),
        tpcMin = Fin 10, tpcMax = Fin 20, samples = Fin 1000, sensorWeight = Fin (1/2)\<rparr>"
  by (simp add: readInputs_def js_gt_def Let_def rounded_small)

lemma handleFormSubmit_error:
  "readInputs d = Inl e \<Longrightarrow> handleFormSubmit d sp rs n = Some (Inl e, n)"
  by (simp add: handleFormSubmit_def)

lemma readInputs_out_of_range:
  assumes "(\<exists>x. fleetSize_in d = Fin x \<and> x \<le> 0)
    \<or> (\<exists>x. sfShareMin_in d = Fin x \<and> x < 0)
    \<or> (\<exists>x. sfShareMax_in d = Fin x \<and> 100 < x)
    \<or> (\<exists>x y. sfShareMin_in d = Fin x \<and> sfShareMax_in d = Fin y \<and> y < x)
    \<or> (\<exists>x. utilMin_in d = Fin x \<and> x < 0)
    \<or> (\<exists>x. utilMax_in d = Fin x \<and> 100 < x)
    \<or> (\<exists>x y. utilMin_in d = Fin x \<and> utilMax_in d = Fin y \<and> y < x)
    \<or> (\<exists>x. tripsPerCarMin_in d = Fin x \<and> x \<le> 0)
    \<or> (\<exists>x y. tripsPerCarMin_in d = Fin x \<and> tripsPerCarMax_in d = Fin y \<and> y < x)
    \<or> (\<exists>x. samples_in d = Fin x \<and> x < 1000)
    \<or> (\<exists>x. sensorWeight_in d = Fin x \<and> (x < 0 \<or> 1 < x))"
  shows "\<exists>e. readInputs d = Inl e"
  using assms by (auto simp: readInputs_def Let_def js_gt_def)

text \<open>
  Claim C2, amended. A form in which a field other than \<open>tripsPerDay\<close> is a number outside
  its range is rejected: a fleet size that is not positive, a share or a utilisation
  percentage below 0, above 100 or with \<open>min > max\<close>, trips per car with a minimum that
  is not positive or above the maximum, fewer than 1000 samples, a sensor weight outside
  \<open>[0, 1]\<close>. This covers \<open>fleetSize = 0\<close>, \<open>sfShareMin > sfShareMax\<close>, \<open>samples = 500\<close> and
  \<open>sensorWeight = 1.5\<close>. The submission then ends with the error and the generator has not
  been asked for a single draw. A form that meets every constraint on the other fields is
  accepted whatever the sign of \<open>tripsPerDay\<close>.
\<close>

theorem readInputs_rejects:
  "((\<exists>x. fleetSize_in d = Fin x \<and> x \<le> 0)
    \<or> (\<exists>x. sfShareMin_in d = Fin x \<and> x < 0)
    \<or> (\<exists>x. sfShareMax_in d = Fin x \<and> 100 < x)
    \<or> (\<exists>x y. sfShareMin_in d = Fin x \<and> sfShareMax_in d = Fin y \<and> y < x)
    \<or> (\<exists>x. utilMin_in d = Fin x \<and> x < 0)
    \<or> (\<exists>x. utilMax_in d = Fin x \<and> 100 < x)
    \<or> (\<exists>x y. utilMin_in d = Fin x \<and> utilMax_in d = Fin y \<and> y < x)
    \<or> (\<exists>x. tripsPerCarMin_in d = Fin x \<and> x \<le> 0)
    \<or> (\<exists>x y. tripsPerCarMin_in d = Fin x \<and> tripsPerCarMax_in d = Fin y \<and> y < x)
    \<or> (\<exists>x. samples_in d = Fin x \<and> x < 1000)
    \<or> (\<exists>x. sensorWeight_in d = Fin x \<and> (x < 0 \<or> 1 < x))
    \<longrightarrow> (\<exists>e. readInputs d = Inl e \<and> handleFormSubmit d sp rs n = Some (Inl e, n)))
   \<and> (\<forall>a b1 b2 c1 c2 t e1 e2 k w.
        d = \<lparr>fleetSize_in = Fin a, sfShareMin_in = Fin b1, sfShareMax_in = Fin b2,
             utilMin_in = Fin c1, utilMax_in = Fin c2, tripsPerDay_in = Fin t,
             tripsPerCarMin_in = Fin e1, tripsPerCarMax_in = Fin e2,
             samples_in = Fin (real k), sensorWeight_in = Fin w\<rparr>
        \<and> 0 < a \<and> 0 \<le> b1 \<and> b1 \<le> b2 \<and> b2 \<le> 100 \<and> 0 \<le> c1 \<and> c1 \<le> c2 \<and> c2 \<le> 100
        \<and> 0 < e1 \<and> e1 \<le> e2 \<and> 1000 \<le> k \<and> 0 \<le> w \<and> w \<le> 1
        \<longrightarrow> readInputs d =
              Inr \<lparr>fleetSize = Fin a, sfMin = js_div (Fin b1) (Fin 100),
                   sfMax = js_div (Fin b2) (Fin 100), utilMin = js_div (Fin c1) (Fin 100),
                   utilMax = js_div (Fin c2) (Fin 100), tripsPerDay = Fin t,
                   tpcMin = Fin e1, tpcMax = Fin e2, samples = Fin (real k),
                   sensorWeight = Fin w\<rparr>)"
proof (intro conjI impI allI)
  assume "(\<exists>x. fleetSize_in d = Fin x \<and> x \<le> 0)
    \<or> (\<exists>x. sfShareMin_in d = Fin x \<and> x < 0)
    \<or> (\<exists>x. sfShareMax_in d = Fin x \<and> 100 < x)
    \<or> (\<exists>x y. sfShareMin_in d = Fin x \<and> sfShareMax_in d = Fin y \<and> y < x)
    \<or> (\<exists>x. utilMin_in d = Fin x \<and> x < 0)
    \<or> (\<exists>x. utilMax_in d = Fin x \<and> 100 < x)
    \<or> (\<exists>x y. utilMin_in d = Fin x \<and> utilMax_in d = Fin y \<and> y < x)
    \<or> (\<exists>x. tripsPerCarMin_in d = Fin x \<and> x \<le> 0)
    \<or> (\<exists>x y. tripsPerCarMin_in d = Fin x \<and> tripsPerCarMax_in d = Fin y \<and> y < x)
    \<or> (\<exists>x. samples_in d = Fin x \<and> x < 1000)
    \<or> (\<exists>x. sensorWeight_in d = Fin x \<and> (x < 0 \<or> 1 < x))"
  then obtain e where "readInputs d = Inl e" using readInputs_out_of_range by blast
  then show "\<exists>e. readInputs d = Inl e \<and> handleFormSubmit d sp rs n = Some (Inl e, n)"
    using handleFormSubmit_error by blast
next
  fix a b1 b2 c1 c2 t e1 e2 :: real and k :: nat and w :: real
  assume h: "d = \<lparr>fleetSize_in = Fin a, sfShareMin_in = Fin b1, sfShareMax_in = Fin b2,
             utilMin_in = Fin c1, utilMax_in = Fin c2, tripsPerDay_in = Fin t,
             tripsPerCarMin_in = Fin e1, tripsPerCarMax_in = Fin e2,
             samples_in = Fin (real k), sensorWeight_in = Fin w\<rparr>
        \<and> 0 < a \<and> 0 \<le> b1 \<and> b1 \<le> b2 \<and> b2 \<le> 100 \<and> 0 \<le> c1 \<and> c1 \<le> c2 \<and> c2 \<le> 100
        \<and> 0 < e1 \<and> e1 \<le> e2 \<and> 1000 \<le> k \<and> 0 \<le> w \<and> w \<le> 1"
  from h show "readInputs d =
              Inr \<lparr>fleetSize = Fin a, sfMin = js_div (Fin b1) (Fin 100),
                   sfMax = js_div (Fin b2) (Fin 100), utilMin = js_div (Fin c1) (Fin 100),
                   utilMax = js_div (Fin c2) (Fin 100), tripsPerDay = Fin t,
                   tpcMin = Fin e1, tpcMax = Fin e2, samples = Fin (real k),
                   sensorWeight = Fin w\<rparr>"
    by (simp add: readInputs_def Let_def js_gt_def del: js_div.simps)
qed

theorem readInputs_rejects_witness:
  "handleFormSubmit (demo_form\<lparr>fleetSize_in := Fin 0\<rparr>) Null (\<lambda>_. 1/2) 0
       = Some (Inl FleetSizeInvalid, 0)
   \<and> handleFormSubmit (demo_form\<lparr>sfShareMin_in := Fin 30\<rparr>) Null (\<lambda>_. 1/2) 0
       = Some (Inl SfShareInvalid, 0)
   \<and> handleFormSubmit (demo_form\<lparr>samples_in := Fin 500\<rparr>) Null (\<lambda>_. 1/2) 0
       = Some (Inl SamplesInvalid, 0)
   \<and> handleFormSubmit (demo_form\<lparr>sensorWeight_in := Fin (3/2)\<rparr>) Null (\<lambda>_. 1/2) 0
       = Some (Inl SensorWeightInvalid, 0)
   \<and> readInputs (demo_form\<lparr>tripsPerDay_in := Fin (- 5)\<rparr>)
       = Inr \<lparr>fleetSize = Fin 1500, sfMin = js_div (Fin 10) (Fin 100),
              sfMax = js_div (Fin 20) (Fin 100), utilMin = js_div (Fin 50) (Fin 100),
              utilMax = js_div (Fin 90) (Fin 100), tripsPerDay = Fin (- 5),
              tpcMin = Fin 10, tpcMax = Fin 20, samples = Fin (real 1000),
              sensorWeight = Fin (1/2)\<rparr>"
proof (intro conjI)
  let ?rs = "\<lambda>_::nat. 1/2 :: real"
  have "\<exists>x. fleetSize_in (demo_form\<lparr>fleetSize_in := Fin 0\<rparr>) = Fin x \<and> x \<le> 0"
    by (intro exI [of _ 0]) simp
  with readInputs_rejects [of "demo_form\<lparr>fleetSize_in := Fin 0\<rparr>" Null ?rs 0]
  obtain e where "readInputs (demo_form\<lparr>fleetSize_in := Fin 0\<rparr>) = Inl e"
    "handleFormSubmit (demo_form\<lparr>fleetSize_in := Fin 0\<rparr>) Null ?rs 0 = Some (Inl e, 0)"
    by blast
  moreover have "readInputs (demo_form\<lparr>fleetSize_in := Fin 0\<rparr>) = Inl FleetSizeInvalid"
    by (simp add: readInputs_def demo_form_def)
  ultimately show "handleFormSubmit (demo_form\<lparr>fleetSize_in := Fin 0\<rparr>) Null ?rs 0
       = Some (Inl FleetSizeInvalid, 0)" by simp
next
  let ?rs = "\<lambda>_::nat. 1/2 :: real"
  have "\<exists>x y. sfShareMin_in (demo_form\<lparr>sfShareMin_in := Fin 30\<rparr>) = Fin x
      \<and> sfShareMax_in (demo_form\<lparr>sfShareMin_in := Fin 30\<rparr>) = Fin y \<and> y < x"
    by (intro exI [of _ 30] exI [of _ 20]) (simp add: demo_form_def)
  with readInputs_rejects [of "demo_form\<lparr>sfShareMin_in := Fin 30\<rparr>" Null ?rs 0]
  obtain e where "readInputs (demo_form\<lparr>sfShareMin_in := Fin 30\<rparr>) = Inl e"
    "handleFormSubmit (demo_form\<lparr>sfShareMin_in := Fin 30\<rparr>) Null ?rs 0 = Some (Inl e, 0)"
    by blast
  moreover have "readInputs (demo_form\<lparr>sfShareMin_in := Fin 30\<rparr>) = Inl SfShareInvalid"
    by (simp add: readInputs_def demo_form_def js_gt_def)
  ultimately show "handleFormSubmit (demo_form\<lparr>sfShareMin_in := Fin 30\<rparr>) Null ?rs 0
       = Some (Inl SfShareInvalid, 0)" by simp
next
  let ?rs = "\<lambda>_::nat. 1/2 :: real"
  have "\<exists>x. samples_in (demo_form\<lparr>samples_in := Fin 500\<rparr>) = Fin x \<and> x < 1000"
    by (intro exI [of _ 500]) simp
  with readInputs_rejects [of "demo_form\<lparr>samples_in := Fin 500\<rparr>" Null ?rs 0]
  obtain e where "readInputs (demo_form\<lparr>samples_in := Fin 500\<rparr>) = Inl e"
    "handleFormSubmit (demo_form\<lparr>samples_in := Fin 500\<rparr>) Null ?rs 0 = Some (Inl e, 0)"
    by blast
  moreover have "readInputs (demo_form\<lparr>samples_in := Fin 500\<rparr>) = Inl SamplesInvalid"
    by (simp add: readInputs_def demo_form_def js_gt_def)
  ultimately show "handleFormSubmit (demo_form\<lparr>samples_in := Fin 500\<rparr>) Null ?rs 0
       = Some (Inl SamplesInvalid, 0)" by simp
next
  let ?rs = "\<lambda>_::nat. 1/2 :: real"
  have "\<exists>x. sensorWeight_in (demo_form\<lparr>sensorWeight_in := Fin (3/2)\<rparr>) = Fin x \<and> (x < 0 \<or> 1 < x)"
    by (intro exI [of _ "3/2"]) simp
  with readInputs_rejects [of "demo_form\<lparr>sensorWeight_in := Fin (3/2)\<rparr>" Null ?rs 0]
  obtain e where "readInputs (demo_form\<lparr>sensorWeight_in := Fin (3/2)\<rparr>) = Inl e"
    "handleFormSubmit (demo_form\<lparr>sensorWeight_in := Fin (3/2)\<rparr>) Null ?rs 0 = Some (Inl e, 0)"
    by blast
  moreover have "readInputs (demo_form\<lparr>sensorWeight_in := Fin (3/2)\<rparr>) = Inl SensorWeightInvalid"
    by (simp add: readInputs_def demo_form_def js_gt_def)
  ultimately show "handleFormSubmit (demo_form\<lparr>sensorWeight_in := Fin (3/2)\<rparr>) Null ?rs 0
       = Some (Inl SensorWeightInvalid, 0)" by simp
next
  have e: "demo_form\<lparr>tripsPerDay_in := Fin (- 5)\<rparr> =
      \<lparr>fleetSize_in = Fin 1500, sfShareMin_in = Fin 10, sfShareMax_in = Fin 20,
       utilMin_in = Fin 50, utilMax_in = Fin 90, tripsPerDay_in = Fin (- 5),
       tripsPerCarMin_in = Fin 10, tripsPerCarMax_in = Fin 20,
       samples_in = Fin (real 1000), sensorWeight_in = Fin (1/2)\<rparr>"
    by (simp add: demo_form_def)
  show "readInputs (demo_form\<lparr>tripsPerDay_in := Fin (- 5)\<rparr>)
       = Inr \<lparr>fleetSize = Fin 1500, sfMin = js_div (Fin 10) (Fin 100),
              sfMax = js_div (Fin 20) (Fin 100), utilMin = js_div (Fin 50) (Fin 100),
              utilMax = js_div (Fin 90) (Fin 100), tripsPerDay = Fin (- 5),
              tpcMin = Fin 10, tpcMax = Fin 20, samples = Fin (real 1000),
              sensorWeight = Fin (1/2)\<rparr>"
    by (rule readInputs_rejects [of "demo_form\<lparr>tripsPerDay_in := Fin (- 5)\<rparr>" Null "\<lambda>_. 1/2" 0,
          THEN conjunct2, rule_format, of 1500 10 20 50 90 "- 5" 10 20 1000 "1/2"])
       (simp add: e)
qed

section \<open>Properties of the sensor sampler\<close>

lemma redraw_truthy: "\<not> falsy u \<Longrightarrow> redraw rs u n = Some (u, n)"
  by (subst redraw.simps) simp

lemma redraw_falsy: "falsy u \<Longrightarrow> redraw rs u n = redraw rs (Fin (rs n)) (Suc n)"
  by (subst redraw.simps) (simp add: Math_random_def)

lemma redraw_finds:
  "rs m \<noteq> 0 \<Longrightarrow> n \<le> m \<Longrightarrow> falsy u \<Longrightarrow>
     \<exists>k. n \<le> k \<and> k \<le> m \<and> rs k \<noteq> 0 \<and> redraw rs u n = Some (Fin (rs k), Suc k)"
proof (induction "m - n" arbitrary: n u)
  case 0
  then have "n = m" by simp
  with 0 have "redraw rs u n = Some (Fin (rs m), Suc m)"
    by (simp add: redraw_falsy redraw_truthy)
  with 0 \<open>n = m\<close> show ?case by auto
next
  case (Suc d)
  show ?case
  proof (cases "rs n = 0")
    case True
    have step: "redraw rs u n = redraw rs (Fin 0) (Suc n)"
      using Suc.prems(3) True by (simp add: redraw_falsy)
    have "d = m - Suc n" "Suc n \<le> m" using Suc.hyps(2) by simp_all
    from Suc.hyps(1) [OF this(1) Suc.prems(1) this(2), of "Fin 0"]
    obtain k where "Suc n \<le> k" "k \<le> m" "rs k \<noteq> 0"
      "redraw rs (Fin 0) (Suc n) = Some (Fin (rs k), Suc k)" by auto
    with step show ?thesis by (intro exI [of _ k]) simp
  next
    case False
    then have "redraw rs u n = Some (Fin (rs n), Suc n)"
      using Suc.prems(3) by (simp add: redraw_falsy redraw_truthy)
    with False Suc.prems(2) show ?thesis by auto
  qed
qed

lemma redraw_lively:
  assumes "lively rs"
  shows "\<exists>k. n \<le> k \<and> rs k \<noteq> 0 \<and> redraw rs (Fin 0) n = Some (Fin (rs k), Suc k)"
proof -
  from assms obtain m where "n \<le> m" "rs m \<noteq> 0" unfolding lively_def by blast
  then show ?thesis using redraw_finds [of rs m n "Fin 0"] by auto
qed

text \<open>
  A generator that returns zero for ever keeps \<open>randn\<close> in its first loop.
\<close>

lemma redraw_zero_forever: "redraw (\<lambda>_. 0) (Fin 0) n = None"
proof -
  have stuck: "redraw rs u n = Some y \<Longrightarrow> \<not> (falsy u \<and> rs = (\<lambda>_. 0))" for rs u n y
    by (erule redraw.raw_induct [rotated, where P = "\<lambda>rs u n y. \<not> (falsy u \<and> rs = (\<lambda>_. 0))"])
       (fastforce simp: Math_random_def split: if_splits)
  have "redraw (\<lambda>_. 0) (Fin 0) n \<noteq> Some y" for y
    using stuck [of "\<lambda>_. 0" "Fin 0" n y] by auto
  then show ?thesis by (meson option.exhaust)
qed

lemma randn_zero_forever: "randn (\<lambda>_. 0) n = None"
  by (simp add: randn_def redraw_zero_forever)



lemma ln_pow2_bounds:
  assumes "1 / 2 ^ k \<le> x" "x \<le> 2 ^ k"
  shows "\<bar>ln x\<bar> \<le> real k"
proof -
  have pos: "0 < x" using assms(1) by (smt (verit) divide_pos_pos zero_less_power zero_less_numeral)
  have l2: "ln (2::real) \<le> 1" using ln_2_less_1 by simp
  have "ln x \<le> ln (2 ^ k)" using assms(2) pos by simp
  also have "\<dots> = real k * ln 2" by (simp add: ln_realpow)
  also have "\<dots> \<le> real k * 1" using l2 by (intro mult_left_mono) simp_all
  finally have up: "ln x \<le> real k" by simp
  have "ln (1 / 2 ^ k) \<le> ln x" using assms(1) pos by simp
  moreover have "ln (1 / 2 ^ k :: real) = - (real k * ln 2)"
    by (simp add: ln_div ln_realpow)
  moreover have "real k * ln 2 \<le> real k * 1" using l2 by (intro mult_left_mono) simp_all
  ultimately have "- real k \<le> ln x" by simp
  with up show ?thesis by simp
qed

lemma randn_bounded:
  assumes "lively rs" "unit_draws rs" "double_draws rs"
  shows "\<exists>z n'. randn rs n = Some (Fin z, n') \<and> \<bar>z\<bar> \<le> 47"
proof -
  from redraw_lively [OF assms(1), of n] obtain k where
    k: "redraw rs (Fin 0) n = Some (Fin (rs k), Suc k)" "rs k \<noteq> 0" by blast
  from redraw_lively [OF assms(1), of "Suc k"] obtain j where
    j: "redraw rs (Fin 0) (Suc k) = Some (Fin (rs j), Suc j)" "rs j \<noteq> 0" by blast
  let ?u1 = "rs k" and ?u2 = "rs j"
  have u1: "1 / 2 ^ 1074 \<le> ?u1" "?u1 < 1" "0 < ?u1"
    using assms(2,3) k(2) unfolding unit_draws_def double_draws_def
    by (metis, metis, metis order_less_le)
  have u2: "0 \<le> ?u2" "?u2 < 1" using assms(2) unfolding unit_draws_def by simp_all
  have "\<bar>ln ?u1\<bar> \<le> real (1074::nat)"
    using u1 by (intro ln_pow2_bounds) simp_all
  moreover have "ln ?u1 < 0" using u1 by simp
  ultimately have l: "0 \<le> - 2 * ln ?u1" "- 2 * ln ?u1 \<le> 2148" by simp_all
  have lg: "Math_log (Fin ?u1) = Fin (ln ?u1)" using u1 by simp
  have m1: "js_mul (Fin (- 2)) (Fin (ln ?u1)) = Fin (- 2 * ln ?u1)"
    using l by (intro js_mul_Fin representable_le) simp
  have sq: "Math_sqrt (Fin (- 2 * ln ?u1)) = Fin (sqrt (- 2 * ln ?u1))" using l by simp
  have "sqrt (- 2 * ln ?u1) \<le> sqrt (47 ^ 2)"
    using l by (intro real_sqrt_le_mono) simp
  then have s: "0 \<le> sqrt (- 2 * ln ?u1)" "sqrt (- 2 * ln ?u1) \<le> 47" using l by simp_all
  have pi7: "\<bar>2 * pi\<bar> \<le> 8" using pi_less_4 pi_gt_zero by simp
  have m2: "js_mul (Fin 2) (Fin pi) = Fin (2 * pi)"
    using pi7 by (intro js_mul_Fin representable_le) simp
  have "\<bar>2 * pi * ?u2\<bar> \<le> 8"
  proof -
    have "2 * pi * ?u2 \<le> 2 * pi * 1" using u2 pi_gt_zero by (intro mult_left_mono) simp_all
    moreover have "0 \<le> 2 * pi * ?u2" using u2 pi_gt_zero by simp
    ultimately show ?thesis using pi7 by linarith
  qed
  then have m3: "js_mul (Fin (2 * pi)) (Fin ?u2) = Fin (2 * pi * ?u2)"
    by (intro js_mul_Fin representable_le) simp
  let ?z = "sqrt (- 2 * ln ?u1) * cos (2 * pi * ?u2)"
  have "\<bar>?z\<bar> = sqrt (- 2 * ln ?u1) * \<bar>cos (2 * pi * ?u2)\<bar>" using s by (simp add: abs_mult)
  also have "\<dots> \<le> 47 * 1" using s by (intro mult_mono) simp_all
  finally have z: "\<bar>?z\<bar> \<le> 47" by simp
  then have m4: "js_mul (Fin (sqrt (- 2 * ln ?u1))) (Fin (cos (2 * pi * ?u2))) = Fin ?z"
    by (intro js_mul_Fin representable_le) simp
  have "randn rs n = Some (Fin ?z, Suc j)"
    using lg m1 sq m2 m3 m4
    by (simp add: randn_def k j del: js_mul.simps Math_log.simps Math_sqrt.simps)
  with z show ?thesis by blast
qed

lemma exp_le_pow2:
  assumes "y \<le> 600"
  shows "exp (y::real) \<le> 2 ^ 1023"
proof -
  have "exp y \<le> exp (of_nat 600 * 1)" using assms by simp
  also have "\<dots> = exp 1 ^ 600" by (rule exp_of_nat_mult)
  also have "\<dots> \<le> 3 ^ 600" using exp_le by (intro power_mono) simp_all
  also have "\<dots> \<le> (2::real) ^ 1023" by simp
  finally show ?thesis .
qed

lemma sampleSensor_in_range:
  assumes x: "1 / 2 ^ 511 \<le> x" "x \<le> 2 ^ 511"
    and rs: "lively rs" "unit_draws rs" "double_draws rs"
  shows "\<exists>v n'. sampleSensor (Num (Fin x)) rs n = Some (Fin v, n') \<and> 0 < v \<and> representable v"
proof -
  have pos: "0 < x" using x(1) by (smt (verit) divide_pos_pos zero_less_power zero_less_numeral)
  from randn_bounded [OF rs, of n] obtain z n1 where
    z: "randn rs n = Some (Fin z, n1)" "\<bar>z\<bar> \<le> 47" by blast
  have xx: "x * x \<le> 2 ^ 511 * 2 ^ 511" using x(2) pos by (intro mult_mono) simp_all
  then have sq: "x * x \<le> 2 ^ 1022" by (simp add: power_add [symmetric])
  have nz: "x * x \<noteq> 0" "0 < x * x" using pos by simp_all
  let ?sd = "x * (3 / 10)"
  have sd: "js_mul (Fin x) (Fin (3 / 10)) = Fin ?sd"
    using pos by (simp add: rounded_shrink)
  have "\<bar>?sd * ?sd\<bar> \<le> x * x" using pos by (simp add: abs_mult)
  then have "\<bar>?sd * ?sd\<bar> \<le> 2 ^ 1023" using sq by simp
  then have sd2: "js_mul (Fin ?sd) (Fin ?sd) = Fin (?sd * ?sd)"
    by (intro js_mul_Fin representable_le)
  have m2: "js_mul (Fin x) (Fin x) = Fin (x * x)"
    using sq nz by (intro js_mul_Fin representable_le) simp
  have ratio: "?sd * ?sd / (x * x) = 9 / 100" using pos by simp
  have vr: "js_div (Fin (?sd * ?sd)) (Fin (x * x)) = Fin (9 / 100)"
    using nz ratio by (simp add: rounded_small)
  have one: "js_add (Fin 1) (Fin (9 / 100)) = Fin (109 / 100)"
    by (simp add: rounded_small)
  let ?s2 = "ln (109 / 100 :: real)"
  have s2: "0 \<le> ?s2" "?s2 \<le> 1"
  proof -
    show "0 \<le> ?s2" by simp
    have "ln (1 + 9 / 100 :: real) \<le> 9 / 100" by (rule ln_add_one_self_le_self) simp
    then show "?s2 \<le> 1" by simp
  qed
  have lg: "Math_log (Fin (109 / 100)) = Fin ?s2" by simp
  have sg: "Math_sqrt (Fin ?s2) = Fin (sqrt ?s2)" using s2 by simp
  have sgb: "0 \<le> sqrt ?s2" "sqrt ?s2 \<le> 1" using s2 by simp_all
  have lx: "\<bar>ln x\<bar> \<le> real (511::nat)" using x by (intro ln_pow2_bounds)
  have lgx: "Math_log (Fin x) = Fin (ln x)" using pos by simp
  have half: "js_div (Fin ?s2) (Fin 2) = Fin (?s2 / 2)"
    using s2 by (intro js_div_Fin representable_le) simp_all
  let ?mu = "ln x - ?s2 / 2"
  have mub: "\<bar>?mu\<bar> \<le> 512" using lx s2 by linarith
  then have mu: "js_sub (Fin (ln x)) (Fin (?s2 / 2)) = Fin ?mu"
    by (intro js_sub_Fin representable_le) simp
  have "\<bar>sqrt ?s2 * z\<bar> = sqrt ?s2 * \<bar>z\<bar>" using sgb by (simp add: abs_mult)
  also have "\<dots> \<le> 1 * 47" using sgb z(2) by (intro mult_mono) simp_all
  finally have szb: "\<bar>sqrt ?s2 * z\<bar> \<le> 47" by simp
  then have sz: "js_mul (Fin (sqrt ?s2)) (Fin z) = Fin (sqrt ?s2 * z)"
    by (intro js_mul_Fin representable_le) simp
  let ?y = "?mu + sqrt ?s2 * z"
  have yb: "\<bar>?y\<bar> \<le> 559" using mub szb by linarith
  then have ad: "js_add (Fin ?mu) (Fin (sqrt ?s2 * z)) = Fin ?y"
    by (intro js_add_Fin representable_le) simp
  have "exp ?y \<le> 2 ^ 1023" using yb by (intro exp_le_pow2) simp
  then have rep: "representable (exp ?y)" by (intro representable_le) simp
  then have ex: "Math_exp (Fin ?y) = Fin (exp ?y)" by simp
  have "sampleSensor (Num (Fin x)) rs n = Some (Fin (exp ?y), n1)"
    unfolding sampleSensor_def Let_def
    by (simp only: ToNumber.simps sd sd2 m2 vr one lg sg lgx half mu z(1) sz ad ex
        bind.bind_lunit prod.case) (use pos in simp)
  with rep show ?thesis by (intro exI [of _ "exp ?y"] exI [of _ n1]) simp
qed

lemma sampleSensor_square_overflow:
  assumes "0 < x" "representable x" "representable (x * (3 / 10))"
    and "\<not> representable (x * (3 / 10) * (x * (3 / 10)))" "\<not> representable (x * x)"
    and "randn rs n = Some (z, n')"
  shows "sampleSensor (Num (Fin x)) rs n = Some (NaN, n')"
proof -
  have r: "representable (3 / 10)" by (simp add: representable_le)
  have sd: "js_mul (Fin x) (Fin (3 / 10)) = Fin (x * (3 / 10))"
    using assms(3) by (rule js_mul_Fin)
  have sd2: "js_mul (Fin (x * (3 / 10))) (Fin (x * (3 / 10))) = PInf"
    using assms(1,3,4) by (simp add: rounded_def inf_of_sign_def)
  have m2: "js_mul (Fin x) (Fin x) = PInf"
    using assms(1,2,5) by (simp add: rounded_def inf_of_sign_def)
  have vr: "js_div PInf PInf = NaN" by simp
  have nan: "js_add (Fin 1) NaN = NaN" "Math_log NaN = NaN" "Math_sqrt NaN = NaN"
    "js_div NaN (Fin 2) = NaN" "js_sub (Math_log (Fin x)) NaN = NaN" "js_mul NaN z = NaN"
    "js_add NaN NaN = NaN" "Math_exp NaN = NaN"
    by (simp_all add: js_sub_def)
  show ?thesis
    unfolding sampleSensor_def Let_def
    by (simp only: ToNumber.simps sd sd2 m2 vr nan assms(6) bind.bind_lunit prod.case)
       (use assms(1) in simp)
qed

text \<open>
  Claim C4, as stated: for every finite positive point the sample is a finite positive
  number. It fails for a point whose square is beyond the range of doubles: at \<open>10^200\<close>
  both \<open>sd * sd\<close> and \<open>mean * mean\<close> are \<open>Infinity\<close>, their quotient is NaN and so is the
  sample.
\<close>

theorem sampleSensor_overflow_counterexample:
  "isFinite (Fin (10 ^ 200)) \<and> js_gt (Fin (10 ^ 200)) (Fin 0)
   \<and> sampleSensor (Num (Fin (10 ^ 200))) (\<lambda>_. 1/2) 0 = Some (NaN, 2)"
proof -
  let ?rs = "\<lambda>_::nat. 1/2 :: real"
  have d: "redraw ?rs (Fin 0) m = Some (Fin (1/2), Suc m)" for m
    by (simp add: redraw_falsy redraw_truthy)
  have "\<exists>z. randn ?rs 0 = Some (z, 2)"
    by (simp add: randn_def d del: js_mul.simps)
  then obtain z where z: "randn ?rs 0 = Some (z, 2)" by blast
  have r1: "representable (10 ^ 200)" "representable (10 ^ 200 * (3 / 10))"
    by (simp_all add: representable_def overflow_threshold_def)
  have r2: "\<not> representable (10 ^ 200 * (3 / 10) * (10 ^ 200 * (3 / 10)))"
    "\<not> representable (10 ^ 200 * 10 ^ 200)"
    by (simp_all add: representable_def overflow_threshold_def)
  have p: "(0::real) < 10 ^ 200" by simp
  have "sampleSensor (Num (Fin (10 ^ 200))) ?rs 0 = Some (NaN, 2)"
    by (rule sampleSensor_square_overflow [OF p r1 r2 z])
  then show ?thesis by (simp add: js_gt_def)
qed

text \<open>
  Claim C4, amended. For a point that is not a finite positive number (0, -5, NaN, an
  infinity, \<open>null\<close>, \<open>undefined\<close>) \<open>sampleSensor\<close> returns NaN, which is not finite, without
  drawing. For a point between \<open>2^-511\<close> and \<open>2^511\<close>, whose square is a normal double, it
  returns a finite positive number, for every sequence of draws that are doubles in
  \<open>[0, 1)\<close> and do not stay at zero for ever.
\<close>

theorem sampleSensor_sentinel:
  "(\<not> (Number_isFinite pt \<and> js_gt (ToNumber pt) (Fin 0)) \<longrightarrow>
      sampleSensor pt rs n = Some (NaN, n))
   \<and> (\<forall>x. pt = Num (Fin x) \<and> 1 / 2 ^ 511 \<le> x \<and> x \<le> 2 ^ 511
           \<and> unit_draws rs \<and> double_draws rs \<and> lively rs \<longrightarrow>
        (\<exists>v n'. sampleSensor pt rs n = Some (Fin v, n') \<and> 0 < v \<and> representable v))"
proof (intro conjI impI allI)
  assume h: "\<not> (Number_isFinite pt \<and> js_gt (ToNumber pt) (Fin 0))"
  have "\<not> Number_isFinite pt \<or> js_le (ToNumber pt) (Fin 0)"
  proof (cases pt)
    case (Num v)
    with h show ?thesis by (cases v) (auto simp: js_gt_def)
  qed simp_all
  then show "sampleSensor pt rs n = Some (NaN, n)"
    by (simp add: sampleSensor_def)
next
  fix x
  assume h: "pt = Num (Fin x) \<and> 1 / 2 ^ 511 \<le> x \<and> x \<le> 2 ^ 511
           \<and> unit_draws rs \<and> double_draws rs \<and> lively rs"
  then show "\<exists>v n'. sampleSensor pt rs n = Some (Fin v, n') \<and> 0 < v \<and> representable v"
    using sampleSensor_in_range [of x rs n] by simp
qed

theorem sampleSensor_sentinel_witness:
  "sampleSensor (Num (Fin 0)) (\<lambda>_. 1/2) 0 = Some (NaN, 0)
   \<and> sampleSensor (Num (Fin (- 5))) (\<lambda>_. 1/2) 0 = Some (NaN, 0)
   \<and> sampleSensor (Num NaN) (\<lambda>_. 1/2) 0 = Some (NaN, 0)
   \<and> sampleSensor Null (\<lambda>_. 1/2) 0 = Some (NaN, 0)
   \<and> (1 / 2 ^ 511 :: real) \<le> 1000 \<and> (1000 :: real) \<le> 2 ^ 511
   \<and> unit_draws (\<lambda>_. 1/2) \<and> double_draws (\<lambda>_. 1/2) \<and> lively (\<lambda>_. 1/2)
   \<and> (\<exists>v n'. sampleSensor (Num (Fin 1000)) (\<lambda>_. 1/2) 0 = Some (Fin v, n') \<and> 0 < v
         \<and> representable v)"
proof -
  have u: "unit_draws (\<lambda>_. 1/2)" by (simp add: unit_draws_def)
  have d: "double_draws (\<lambda>_. 1/2)" by (simp add: double_draws_def)
  have l: "lively (\<lambda>_. 1/2)" by (auto simp: lively_def)
  have b: "(1 / 2 ^ 511 :: real) \<le> 1000" "(1000 :: real) \<le> 2 ^ 511" by simp_all
  have s: "sampleSensor (Num (Fin 0)) (\<lambda>_. 1/2) 0 = Some (NaN, 0)"
    "sampleSensor (Num (Fin (- 5))) (\<lambda>_. 1/2) 0 = Some (NaN, 0)"
    "sampleSensor (Num NaN) (\<lambda>_. 1/2) 0 = Some (NaN, 0)"
    "sampleSensor Null (\<lambda>_. 1/2) 0 = Some (NaN, 0)"
    using sampleSensor_sentinel [of "Num (Fin 0)" "\<lambda>_. 1/2" 0]
      sampleSensor_sentinel [of "Num (Fin (- 5))" "\<lambda>_. 1/2" 0]
      sampleSensor_sentinel [of "Num NaN" "\<lambda>_. 1/2" 0]
      sampleSensor_sentinel [of Null "\<lambda>_. 1/2" 0]
    by (simp_all add: js_gt_def)
  have p: "\<exists>v n'. sampleSensor (Num (Fin 1000)) (\<lambda>_. 1/2) 0 = Some (Fin v, n') \<and> 0 < v
         \<and> representable v"
    using u d l b sampleSensor_sentinel [of "Num (Fin 1000)" "\<lambda>_. 1/2" 0] by blast
  show ?thesis using u d l b s p by blast
qed

section \<open>Properties of the Monte Carlo run\<close>
















end
